theory Spec2Isabelle
  imports Main "HOL-Library.AList"
begin

section \<open>Pointers, member-function pointers and the call context\<close>

text \<open>
  \<^verbatim>\<open>mthread.h\<close> wraps \<^verbatim>\<open>pthread_create\<close> so that a thread can start in a member
  function. The header only moves pointers around, so the model keeps pointers as they are:
  an address, or \<open>None\<close> for \<^verbatim>\<open>NULL\<close>. A pointer to member function
  (\<^verbatim>\<open>R (T::*)()\<close> or \<^verbatim>\<open>R (T::*)(void *)\<close>) is the identity of a member of the class
  \<^verbatim>\<open>T\<close>, or \<open>None\<close> for the null member pointer, which both types admit (the
  constructors themselves store \<^verbatim>\<open>NULL\<close> in such fields).
\<close>

type_synonym addr = nat
type_synonym pointer = "addr option"
type_synonym member_id = nat
type_synonym member_pointer = "member_id option"

text \<open>The four data members of \<^verbatim>\<open>class mthread\<close>, in declaration order.\<close>

record mthread =
  mp_ref :: pointer
  mp_arg :: pointer
  mf_no_arg :: member_pointer
  mf_arg :: member_pointer

text \<open>
  The class \<^verbatim>\<open>T\<close> of the template is a parameter: what each of its members does when
  called on an owner (and an argument) in a world \<open>'u\<close> of caller-owned objects. A member
  either raises (\<open>Inl\<close>, a C++ exception of type \<open>'e\<close>) or returns a value of the
  template's \<^verbatim>\<open>R\<close> (\<open>Inr\<close>), and leaves a new world.
\<close>

record ('u, 'r, 'e) class_T =
  no_arg_member :: "member_id \<Rightarrow> pointer \<Rightarrow> 'u \<Rightarrow> ('e + 'r) \<times> 'u"
  arg_member :: "member_id \<Rightarrow> pointer \<Rightarrow> pointer \<Rightarrow> 'u \<Rightarrow> ('e + 'r) \<times> 'u"

text \<open>
  The two private static functions are the only start routines this header hands to
  \<^verbatim>\<open>pthread_create\<close>; a pointer to one of them is a value of this type.
\<close>

datatype start_routine = Func_args | Func_no_args

text \<open>An observation of one member call made by a start routine.\<close>

datatype call = Call_no_arg pointer member_id | Call_arg pointer member_id pointer

text \<open>
  The state of the process as far as the header can touch or observe it: the live
  \<^verbatim>\<open>mthread\<close> objects on the free store (an association list from address to object),
  the caller's world (owners and argument payloads), the state \<open>'k\<close> of the native thread
  library, and the log of member calls made so far.
\<close>

record ('u, 'k) process =
  heap :: "(addr \<times> mthread) list"
  world :: 'u
  os :: 'k
  calls :: "call list"

text \<open>
  How a start routine can end without returning: its opaque argument does not point to a
  live \<^verbatim>\<open>mthread\<close>, the member pointer it calls through is null, or the member raised.
\<close>

datatype 'e error = Invalid_context | Null_member_call | Procedure_failure 'e

text \<open>
  The native primitive \<^verbatim>\<open>pthread_create(thread, attr, start_routine, arg)\<close> is external:
  a parameter that maps its four arguments and the thread library's state to a status code
  and a new library state. It never looks inside \<^verbatim>\<open>arg\<close>.
\<close>

type_synonym 'k native_create =
  "pointer \<Rightarrow> pointer \<Rightarrow> start_routine \<Rightarrow> pointer \<Rightarrow> 'k \<Rightarrow> int \<times> 'k"

section \<open>Constructors, destructor, allocation\<close>

text \<open>\<^verbatim>\<open>mthread(T *p_ref, R (T::*f_func)())\<close>\<close>

definition mthread_no_arg :: "pointer \<Rightarrow> member_pointer \<Rightarrow> mthread" where
  "mthread_no_arg p_ref f_func =
     \<lparr>mp_ref = p_ref, mp_arg = None, mf_no_arg = f_func, mf_arg = None\<rparr>"

text \<open>\<^verbatim>\<open>mthread(T *p_ref, R (T::*f_func)(void *), void *p_arg)\<close>\<close>

definition mthread_with_arg :: "pointer \<Rightarrow> member_pointer \<Rightarrow> pointer \<Rightarrow> mthread" where
  "mthread_with_arg p_ref f_func p_arg =
     \<lparr>mp_ref = p_ref, mp_arg = p_arg, mf_no_arg = None, mf_arg = f_func\<rparr>"

text \<open>
  \<^verbatim>\<open>~mthread()\<close>, run on the object at address \<open>this\<close>: two stores into that object and
  nothing else.
\<close>

definition mthread_dtor :: "addr \<Rightarrow> ('u, 'k) process \<Rightarrow> ('u, 'k) process" where
  "mthread_dtor this s =
     (case map_of (heap s) this of
        None \<Rightarrow> s
      | Some m \<Rightarrow> s\<lparr>heap := AList.update this (m\<lparr>mp_ref := None, mp_arg := None\<rparr>) (heap s)\<rparr>)"

text \<open>
  \<^verbatim>\<open>new mthread(...)\<close>: the object is placed at an address above every live one (so it is
  fresh and never null). Exhaustion of the free store is not modelled.
\<close>

fun highest :: "(addr \<times> 'a) list \<Rightarrow> addr" where
  "highest [] = 0"
| "highest ((a, _) # h) = max a (highest h)"

definition fresh :: "(addr \<times> 'a) list \<Rightarrow> addr" where
  "fresh h = Suc (highest h)"

definition new_mthread :: "mthread \<Rightarrow> ('u, 'k) process \<Rightarrow> addr \<times> ('u, 'k) process" where
  "new_mthread m s = (let a = fresh (heap s) in (a, s\<lparr>heap := (a, m) # heap s\<rparr>))"

text \<open>\<^verbatim>\<open>delete p_wrap\<close>: the destructor runs, then the storage is released.\<close>

definition delete_mthread :: "addr \<Rightarrow> ('u, 'k) process \<Rightarrow> ('u, 'k) process" where
  "delete_mthread a s = (let s1 = mthread_dtor a s in s1\<lparr>heap := AList.delete a (heap s1)\<rparr>)"

section \<open>The start routines\<close>

text \<open>
  \<^verbatim>\<open>func_args\<close>: cast the argument to \<^verbatim>\<open>mthread *\<close>, call
  \<^verbatim>\<open>(p_wrap->mp_ref->*p_wrap->mf_arg)(p_wrap->mp_arg)\<close>, delete the object, return 0.
  There is no \<^verbatim>\<open>try\<close>: when the member raises, control leaves the function at the
  call, before \<^verbatim>\<open>delete\<close>. Nothing is checked: the member receives \<^verbatim>\<open>mp_ref\<close> as its
  \<^verbatim>\<open>this\<close> whatever it is, while a call through a null member pointer, or through a
  pointer that is not a live \<^verbatim>\<open>mthread\<close>, has no member to run and is a fault.
\<close>

definition func_args ::
  "('u, 'r, 'e) class_T \<Rightarrow> pointer \<Rightarrow> ('u, 'k) process \<Rightarrow> ('e error + pointer) \<times> ('u, 'k) process"
where
  "func_args T p_arg s =
     (case p_arg of
        None \<Rightarrow> (Inl Invalid_context, s)
      | Some a \<Rightarrow>
         (case map_of (heap s) a of
            None \<Rightarrow> (Inl Invalid_context, s)
          | Some p_wrap \<Rightarrow>
             (case mf_arg p_wrap of
                None \<Rightarrow> (Inl Null_member_call, s)
              | Some f \<Rightarrow>
                 (let s1 = s\<lparr>calls := calls s @ [Call_arg (mp_ref p_wrap) f (mp_arg p_wrap)]\<rparr> in
                  case arg_member T f (mp_ref p_wrap) (mp_arg p_wrap) (world s) of
                    (Inl e, w) \<Rightarrow> (Inl (Procedure_failure e), s1\<lparr>world := w\<rparr>)
                  | (Inr r, w) \<Rightarrow> (Inr None, delete_mthread a (s1\<lparr>world := w\<rparr>))))))"

text \<open>\<^verbatim>\<open>func_no_args\<close>: the same with \<^verbatim>\<open>(p_wrap->mp_ref->*p_wrap->mf_no_arg)()\<close>.\<close>

definition func_no_args ::
  "('u, 'r, 'e) class_T \<Rightarrow> pointer \<Rightarrow> ('u, 'k) process \<Rightarrow> ('e error + pointer) \<times> ('u, 'k) process"
where
  "func_no_args T p_arg s =
     (case p_arg of
        None \<Rightarrow> (Inl Invalid_context, s)
      | Some a \<Rightarrow>
         (case map_of (heap s) a of
            None \<Rightarrow> (Inl Invalid_context, s)
          | Some p_wrap \<Rightarrow>
             (case mf_no_arg p_wrap of
                None \<Rightarrow> (Inl Null_member_call, s)
              | Some f \<Rightarrow>
                 (let s1 = s\<lparr>calls := calls s @ [Call_no_arg (mp_ref p_wrap) f]\<rparr> in
                  case no_arg_member T f (mp_ref p_wrap) (world s) of
                    (Inl e, w) \<Rightarrow> (Inl (Procedure_failure e), s1\<lparr>world := w\<rparr>)
                  | (Inr r, w) \<Rightarrow> (Inr None, delete_mthread a (s1\<lparr>world := w\<rparr>))))))"

section \<open>The launch operations\<close>

text \<open>
  \<^verbatim>\<open>mthread::create(p_thread, p_attr, p_ref, f_start_routine)\<close>: the \<^verbatim>\<open>new\<close> expression is
  an argument of the call, so the object exists before \<^verbatim>\<open>pthread_create\<close> runs; the
  status code is returned as it comes.
\<close>

definition create_no_arg ::
  "'k native_create \<Rightarrow> pointer \<Rightarrow> pointer \<Rightarrow> pointer \<Rightarrow> member_pointer
     \<Rightarrow> ('u, 'k) process \<Rightarrow> int \<times> ('u, 'k) process"
where
  "create_no_arg pthread_create p_thread p_attr p_ref f_start_routine s =
     (let (a, s1) = new_mthread (mthread_no_arg p_ref f_start_routine) s;
          (rc, k) = pthread_create p_thread p_attr Func_no_args (Some a) (os s1)
      in (rc, s1\<lparr>os := k\<rparr>))"

text \<open>\<^verbatim>\<open>mthread::create(p_thread, p_attr, p_ref, f_start_routine, p_arg)\<close>\<close>

definition create_with_arg ::
  "'k native_create \<Rightarrow> pointer \<Rightarrow> pointer \<Rightarrow> pointer \<Rightarrow> member_pointer \<Rightarrow> pointer
     \<Rightarrow> ('u, 'k) process \<Rightarrow> int \<times> ('u, 'k) process"
where
  "create_with_arg pthread_create p_thread p_attr p_ref f_start_routine p_arg s =
     (let (a, s1) = new_mthread (mthread_with_arg p_ref f_start_routine p_arg) s;
          (rc, k) = pthread_create p_thread p_attr Func_args (Some a) (os s1)
      in (rc, s1\<lparr>os := k\<rparr>))"

text \<open>The free function templates \<^verbatim>\<open>mthread_create\<close> forward to the static members.\<close>

definition mthread_create_no_arg ::
  "'k native_create \<Rightarrow> pointer \<Rightarrow> pointer \<Rightarrow> pointer \<Rightarrow> member_pointer
     \<Rightarrow> ('u, 'k) process \<Rightarrow> int \<times> ('u, 'k) process"
where
  "mthread_create_no_arg pthread_create p_thread p_attr p_ref f_start_routine s =
     create_no_arg pthread_create p_thread p_attr p_ref f_start_routine s"

definition mthread_create_with_arg ::
  "'k native_create \<Rightarrow> pointer \<Rightarrow> pointer \<Rightarrow> pointer \<Rightarrow> member_pointer \<Rightarrow> pointer
     \<Rightarrow> ('u, 'k) process \<Rightarrow> int \<times> ('u, 'k) process"
where
  "mthread_create_with_arg pthread_create p_thread p_attr p_ref f_start_routine p_arg s =
     create_with_arg pthread_create p_thread p_attr p_ref f_start_routine p_arg s"

section \<open>A client for the concrete instances\<close>

text \<open>
  A client in the manner of the README's \<^verbatim>\<open>SomeClass\<close>: member 0 of either shape is
  \<^verbatim>\<open>do_work\<close>, which returns after noting in the world what it was called with (the
  owner for \<^verbatim>\<open>do_work()\<close>, the data pointer for \<^verbatim>\<open>do_work(void *data)\<close>); every
  other member raises.
\<close>

definition SomeClass :: "(pointer list, unit, string) class_T" where
  "SomeClass =
     \<lparr>no_arg_member = (\<lambda>f this w. if f = 0 then (Inr (), this # w) else (Inl ''fault'', w)),
      arg_member = (\<lambda>f this data w. if f = 0 then (Inr (), data # w) else (Inl ''fault'', w))\<rparr>"

text \<open>
  Two native primitives: one that accepts every request (status 0) and records the thread
  it would start, one that refuses every request with \<^verbatim>\<open>EAGAIN\<close> (11).
\<close>

definition pthread_create_ok :: "(start_routine \<times> pointer) list native_create" where
  "pthread_create_ok p_thread p_attr r p k = (0, k @ [(r, p)])"

definition pthread_create_eagain :: "(start_routine \<times> pointer) list native_create" where
  "pthread_create_eagain p_thread p_attr r p k = (11, k)"

definition boot :: "(pointer list, (start_routine \<times> pointer) list) process" where
  "boot = \<lparr>heap = [], world = [], os = [], calls = []\<rparr>"

section \<open>Facts about allocation and launch\<close>

text \<open>Every live address is at most \<open>highest\<close>, so the address \<^verbatim>\<open>new\<close> picks is not live.\<close>

lemma highest_ge: "(k, v) \<in> set h \<Longrightarrow> k \<le> highest h"
  by (induction h) auto

lemma fresh_not_key: "fresh h \<notin> fst ` set h"
proof
  assume "fresh h \<in> fst ` set h"
  then obtain v where "(fresh h, v) \<in> set h" by auto
  then have "fresh h \<le> highest h" by (rule highest_ge)
  then show False by (simp add: fresh_def)
qed

lemma fresh_not_live: "map_of h (fresh h) = None"
  using fresh_not_key [of h] by (simp add: map_of_eq_None_iff)

lemma delete_fresh: "AList.delete (fresh h) h = h"
  using fresh_not_key [of h] by (rule delete_id)

lemma create_no_arg_unfold:
  "create_no_arg native t at p f s =
     (fst (native t at Func_no_args (Some (fresh (heap s))) (os s)),
      s\<lparr>heap := (fresh (heap s), mthread_no_arg p f) # heap s,
        os := snd (native t at Func_no_args (Some (fresh (heap s))) (os s))\<rparr>)"
  by (simp add: create_no_arg_def new_mthread_def Let_def split: prod.split)

lemma create_with_arg_unfold:
  "create_with_arg native t at p f v s =
     (fst (native t at Func_args (Some (fresh (heap s))) (os s)),
      s\<lparr>heap := (fresh (heap s), mthread_with_arg p f v) # heap s,
        os := snd (native t at Func_args (Some (fresh (heap s))) (os s))\<rparr>)"
  by (simp add: create_with_arg_def new_mthread_def Let_def split: prod.split)

section \<open>The start routines on a launched context\<close>

text \<open>
  What either start routine does on a live object that holds a member pointer of its shape:
  one logged call, then the two ways out.
\<close>

lemma func_args_live:
  "map_of (heap s) a = Some c \<Longrightarrow> mf_arg c = Some f \<Longrightarrow>
     func_args T (Some a) s =
       (case arg_member T f (mp_ref c) (mp_arg c) (world s) of
          (Inl e, w) \<Rightarrow>
            (Inl (Procedure_failure e),
             s\<lparr>calls := calls s @ [Call_arg (mp_ref c) f (mp_arg c)], world := w\<rparr>)
        | (Inr r, w) \<Rightarrow>
            (Inr None,
             delete_mthread a (s\<lparr>calls := calls s @ [Call_arg (mp_ref c) f (mp_arg c)], world := w\<rparr>)))"
  by (simp add: func_args_def Let_def)

lemma func_no_args_live:
  "map_of (heap s) a = Some c \<Longrightarrow> mf_no_arg c = Some f \<Longrightarrow>
     func_no_args T (Some a) s =
       (case no_arg_member T f (mp_ref c) (world s) of
          (Inl e, w) \<Rightarrow>
            (Inl (Procedure_failure e),
             s\<lparr>calls := calls s @ [Call_no_arg (mp_ref c) f], world := w\<rparr>)
        | (Inr r, w) \<Rightarrow>
            (Inr None,
             delete_mthread a (s\<lparr>calls := calls s @ [Call_no_arg (mp_ref c) f], world := w\<rparr>)))"
  by (simp add: func_no_args_def Let_def)

text \<open>
  \<^verbatim>\<open>delete\<close> on a live object removes that object and touches nothing else.
\<close>

lemma delete_live:
  "map_of (heap s) a = Some m \<Longrightarrow>
     delete_mthread a s = s\<lparr>heap := AList.delete a (heap s)\<rparr>"
  by (simp add: delete_mthread_def mthread_dtor_def Let_def delete_update_same)

text \<open>
  Claim C1, as amended. A single-argument launch with owner \<open>p_ref\<close>, member \<open>f\<close> and
  argument \<open>v\<close> leaves, at the address it allocated, the object the with-argument
  constructor builds (and nothing else new on the free store). In every later state \<open>s'\<close>
  in which that object is still live at its address \<open>a\<close>, whatever else has been launched
  or destroyed meanwhile, \<^verbatim>\<open>func_args\<close> applied to \<open>a\<close> makes exactly one member call:
  \<open>f\<close> on \<open>p_ref\<close> with \<open>v\<close> itself. When the member returns, the start routine deletes
  that object, and only that one, and returns the null pointer; when the member raises, the
  failure leaves the start routine and the free store is untouched.
\<close>

theorem func_args_runs_launched_call:
  "map_of (heap (snd (create_with_arg native p_thread p_attr p_ref (Some f) v s))) (fresh (heap s))
     = Some (mthread_with_arg p_ref (Some f) v)
   \<and> AList.delete (fresh (heap s))
        (heap (snd (create_with_arg native p_thread p_attr p_ref (Some f) v s))) = heap s
   \<and> (map_of (heap s') a = Some (mthread_with_arg p_ref (Some f) v) \<longrightarrow>
        (let (res, s'') = func_args T (Some a) s'
         in calls s'' = calls s' @ [Call_arg p_ref f v]
            \<and> world s'' = snd (arg_member T f p_ref v (world s'))
            \<and> os s'' = os s'
            \<and> (case fst (arg_member T f p_ref v (world s')) of
                  Inr r \<Rightarrow> res = Inr None \<and> heap s'' = AList.delete a (heap s')
                    \<and> map_of (heap s'') a = None
                    \<and> (\<forall>b. b \<noteq> a \<longrightarrow> map_of (heap s'') b = map_of (heap s') b)
                | Inl e \<Rightarrow> res = Inl (Procedure_failure e) \<and> heap s'' = heap s')))"
proof (intro conjI impI)
  show "map_of (heap (snd (create_with_arg native p_thread p_attr p_ref (Some f) v s))) (fresh (heap s))
     = Some (mthread_with_arg p_ref (Some f) v)"
    by (simp add: create_with_arg_unfold)
  show "AList.delete (fresh (heap s))
        (heap (snd (create_with_arg native p_thread p_attr p_ref (Some f) v s))) = heap s"
    by (simp add: create_with_arg_unfold delete_fresh)
next
  assume live: "map_of (heap s') a = Some (mthread_with_arg p_ref (Some f) v)"
  have fields: "mf_arg (mthread_with_arg p_ref (Some f) v) = Some f"
    "mp_ref (mthread_with_arg p_ref (Some f) v) = p_ref"
    "mp_arg (mthread_with_arg p_ref (Some f) v) = v"
    by (simp_all add: mthread_with_arg_def)
  obtain out w where m: "arg_member T f p_ref v (world s') = (out, w)"
    by (cases "arg_member T f p_ref v (world s')")
  show "let (res, s'') = func_args T (Some a) s'
         in calls s'' = calls s' @ [Call_arg p_ref f v]
            \<and> world s'' = snd (arg_member T f p_ref v (world s'))
            \<and> os s'' = os s'
            \<and> (case fst (arg_member T f p_ref v (world s')) of
                  Inr r \<Rightarrow> res = Inr None \<and> heap s'' = AList.delete a (heap s')
                    \<and> map_of (heap s'') a = None
                    \<and> (\<forall>b. b \<noteq> a \<longrightarrow> map_of (heap s'') b = map_of (heap s') b)
                | Inl e \<Rightarrow> res = Inl (Procedure_failure e) \<and> heap s'' = heap s')"
  proof (cases out)
    case (Inl e)
    with live m show ?thesis
      by (simp add: func_args_live [OF live fields(1)] fields)
  next
    case (Inr r)
    have "map_of (heap (s'\<lparr>calls := calls s' @ [Call_arg p_ref f v], world := w\<rparr>)) a
            = Some (mthread_with_arg p_ref (Some f) v)"
      using live by simp
    then have "delete_mthread a (s'\<lparr>calls := calls s' @ [Call_arg p_ref f v], world := w\<rparr>)
            = s'\<lparr>calls := calls s' @ [Call_arg p_ref f v], world := w,
                 heap := AList.delete a (heap s')\<rparr>"
      by (simp add: delete_live)
    with Inr m show ?thesis
      by (simp add: func_args_live [OF live fields(1)] fields delete_conv')
  qed
qed

text \<open>
  An instance: \<^verbatim>\<open>do_work(data)\<close> launched on owner 5 with data pointer 7, run after a
  second launch has put a newer object on the free store; the newer object survives.
\<close>

theorem func_args_runs_launched_call_witness:
  "map_of (heap (snd (create_no_arg pthread_create_ok None None (Some 6) (Some 0)
       (snd (create_with_arg pthread_create_ok None None (Some 5) (Some 0) (Some 7) boot))))) 1
     = Some (mthread_with_arg (Some 5) (Some 0) (Some 7))
   \<and> func_args SomeClass (Some 1)
       (snd (create_no_arg pthread_create_ok None None (Some 6) (Some 0)
         (snd (create_with_arg pthread_create_ok None None (Some 5) (Some 0) (Some 7) boot))))
     = (Inr None,
        \<lparr>heap = [(2, mthread_no_arg (Some 6) (Some 0))], world = [Some 7],
          os = [(Func_args, Some 1), (Func_no_args, Some 2)],
          calls = [Call_arg (Some 5) 0 (Some 7)]\<rparr>)"
proof -
  have live: "map_of (heap (snd (create_no_arg pthread_create_ok None None (Some 6) (Some 0)
       (snd (create_with_arg pthread_create_ok None None (Some 5) (Some 0) (Some 7) boot))))) 1
     = Some (mthread_with_arg (Some 5) (Some 0) (Some 7))"
    by (simp add: create_no_arg_unfold create_with_arg_unfold boot_def fresh_def)
  from func_args_runs_launched_call
    [where native = pthread_create_ok and p_thread = None and p_attr = None
       and p_ref = "Some 5" and f = 0 and v = "Some 7" and s = boot and a = 1 and T = SomeClass
       and s' = "snd (create_no_arg pthread_create_ok None None (Some 6) (Some 0)
         (snd (create_with_arg pthread_create_ok None None (Some 5) (Some 0) (Some 7) boot)))"]
    live
  show ?thesis
    by (simp add: create_no_arg_unfold create_with_arg_unfold boot_def fresh_def SomeClass_def
          pthread_create_ok_def func_args_def delete_mthread_def mthread_dtor_def Let_def
          mthread_with_arg_def mthread_no_arg_def)
qed

text \<open>
  Claim C1 as stated (the start routine always destroys the context and returns null) fails
  for a member that raises: the result is the failure and the object stays allocated.
\<close>

theorem func_args_raising_member_counterexample:
  "fst (func_args SomeClass (Some 1)
         (snd (create_no_arg pthread_create_ok None None (Some 6) (Some 0)
           (snd (create_with_arg pthread_create_ok None None (Some 5) (Some 1) (Some 7) boot)))))
     = Inl (Procedure_failure ''fault'')
   \<and> map_of (heap (snd (func_args SomeClass (Some 1)
         (snd (create_no_arg pthread_create_ok None None (Some 6) (Some 0)
           (snd (create_with_arg pthread_create_ok None None (Some 5) (Some 1) (Some 7) boot))))))) 1
     = Some (mthread_with_arg (Some 5) (Some 1) (Some 7))"
  by (simp add: create_no_arg_unfold create_with_arg_unfold func_args_def mthread_with_arg_def
        mthread_no_arg_def Let_def boot_def fresh_def SomeClass_def pthread_create_ok_def)

text \<open>
  Claim C2, as amended. A no-argument launch with owner \<open>p_ref\<close> and member \<open>f\<close> leaves,
  at the address it allocated, the object the no-argument constructor builds. In every
  later state \<open>s'\<close> in which that object is still live at its address \<open>a\<close>,
  \<^verbatim>\<open>func_no_args\<close> applied to \<open>a\<close> takes the object at that address and makes exactly
  one member call: \<open>f\<close> on \<open>p_ref\<close>, with no argument. When the member returns, the start
  routine deletes that object, and only that one, and returns the null pointer; when the
  member raises, the failure leaves the start routine and the free store is untouched.
\<close>

theorem func_no_args_runs_launched_call:
  "map_of (heap (snd (create_no_arg native p_thread p_attr p_ref (Some f) s))) (fresh (heap s))
     = Some (mthread_no_arg p_ref (Some f))
   \<and> AList.delete (fresh (heap s))
        (heap (snd (create_no_arg native p_thread p_attr p_ref (Some f) s))) = heap s
   \<and> (map_of (heap s') a = Some (mthread_no_arg p_ref (Some f)) \<longrightarrow>
        (let (res, s'') = func_no_args T (Some a) s'
         in calls s'' = calls s' @ [Call_no_arg p_ref f]
            \<and> world s'' = snd (no_arg_member T f p_ref (world s'))
            \<and> os s'' = os s'
            \<and> (case fst (no_arg_member T f p_ref (world s')) of
                  Inr r \<Rightarrow> res = Inr None \<and> heap s'' = AList.delete a (heap s')
                    \<and> map_of (heap s'') a = None
                    \<and> (\<forall>b. b \<noteq> a \<longrightarrow> map_of (heap s'') b = map_of (heap s') b)
                | Inl e \<Rightarrow> res = Inl (Procedure_failure e) \<and> heap s'' = heap s')))"
proof (intro conjI impI)
  show "map_of (heap (snd (create_no_arg native p_thread p_attr p_ref (Some f) s))) (fresh (heap s))
     = Some (mthread_no_arg p_ref (Some f))"
    by (simp add: create_no_arg_unfold)
  show "AList.delete (fresh (heap s))
        (heap (snd (create_no_arg native p_thread p_attr p_ref (Some f) s))) = heap s"
    by (simp add: create_no_arg_unfold delete_fresh)
next
  assume live: "map_of (heap s') a = Some (mthread_no_arg p_ref (Some f))"
  have fields: "mf_no_arg (mthread_no_arg p_ref (Some f)) = Some f"
    "mp_ref (mthread_no_arg p_ref (Some f)) = p_ref"
    "mp_arg (mthread_no_arg p_ref (Some f)) = None"
    by (simp_all add: mthread_no_arg_def)
  obtain out w where m: "no_arg_member T f p_ref (world s') = (out, w)"
    by (cases "no_arg_member T f p_ref (world s')")
  show "let (res, s'') = func_no_args T (Some a) s'
         in calls s'' = calls s' @ [Call_no_arg p_ref f]
            \<and> world s'' = snd (no_arg_member T f p_ref (world s'))
            \<and> os s'' = os s'
            \<and> (case fst (no_arg_member T f p_ref (world s')) of
                  Inr r \<Rightarrow> res = Inr None \<and> heap s'' = AList.delete a (heap s')
                    \<and> map_of (heap s'') a = None
                    \<and> (\<forall>b. b \<noteq> a \<longrightarrow> map_of (heap s'') b = map_of (heap s') b)
                | Inl e \<Rightarrow> res = Inl (Procedure_failure e) \<and> heap s'' = heap s')"
  proof (cases out)
    case (Inl e)
    with live m show ?thesis
      by (simp add: func_no_args_live [OF live fields(1)] fields)
  next
    case (Inr r)
    have "map_of (heap (s'\<lparr>calls := calls s' @ [Call_no_arg p_ref f], world := w\<rparr>)) a
            = Some (mthread_no_arg p_ref (Some f))"
      using live by simp
    then have "delete_mthread a (s'\<lparr>calls := calls s' @ [Call_no_arg p_ref f], world := w\<rparr>)
            = s'\<lparr>calls := calls s' @ [Call_no_arg p_ref f], world := w,
                 heap := AList.delete a (heap s')\<rparr>"
      by (simp add: delete_live)
    with Inr m show ?thesis
      by (simp add: func_no_args_live [OF live fields(1)] fields delete_conv')
  qed
qed

text \<open>
  An instance: \<^verbatim>\<open>do_work()\<close> launched on owner 5, run after a second launch; the newer
  object survives.
\<close>

theorem func_no_args_runs_launched_call_witness:
  "map_of (heap (snd (create_with_arg pthread_create_ok None None (Some 6) (Some 0) (Some 7)
       (snd (create_no_arg pthread_create_ok None None (Some 5) (Some 0) boot))))) 1
     = Some (mthread_no_arg (Some 5) (Some 0))
   \<and> func_no_args SomeClass (Some 1)
       (snd (create_with_arg pthread_create_ok None None (Some 6) (Some 0) (Some 7)
         (snd (create_no_arg pthread_create_ok None None (Some 5) (Some 0) boot))))
     = (Inr None,
        \<lparr>heap = [(2, mthread_with_arg (Some 6) (Some 0) (Some 7))], world = [Some 5],
          os = [(Func_no_args, Some 1), (Func_args, Some 2)],
          calls = [Call_no_arg (Some 5) 0]\<rparr>)"
proof -
  have live: "map_of (heap (snd (create_with_arg pthread_create_ok None None (Some 6) (Some 0) (Some 7)
       (snd (create_no_arg pthread_create_ok None None (Some 5) (Some 0) boot))))) 1
     = Some (mthread_no_arg (Some 5) (Some 0))"
    by (simp add: create_no_arg_unfold create_with_arg_unfold boot_def fresh_def)
  from func_no_args_runs_launched_call
    [where native = pthread_create_ok and p_thread = None and p_attr = None
       and p_ref = "Some 5" and f = 0 and s = boot and a = 1 and T = SomeClass
       and s' = "snd (create_with_arg pthread_create_ok None None (Some 6) (Some 0) (Some 7)
         (snd (create_no_arg pthread_create_ok None None (Some 5) (Some 0) boot)))"]
    live
  show ?thesis
    by (simp add: create_no_arg_unfold create_with_arg_unfold boot_def fresh_def SomeClass_def
          pthread_create_ok_def func_no_args_def delete_mthread_def mthread_dtor_def Let_def
          mthread_with_arg_def mthread_no_arg_def)
qed

text \<open>
  Claim C2 as stated (the start routine always destroys the context and returns null) fails
  for a member that raises.
\<close>

theorem func_no_args_raising_member_counterexample:
  "fst (func_no_args SomeClass (Some 1)
         (snd (create_with_arg pthread_create_ok None None (Some 6) (Some 0) (Some 7)
           (snd (create_no_arg pthread_create_ok None None (Some 5) (Some 1) boot)))))
     = Inl (Procedure_failure ''fault'')
   \<and> map_of (heap (snd (func_no_args SomeClass (Some 1)
         (snd (create_with_arg pthread_create_ok None None (Some 6) (Some 0) (Some 7)
           (snd (create_no_arg pthread_create_ok None None (Some 5) (Some 1) boot))))))) 1
     = Some (mthread_no_arg (Some 5) (Some 1))"
  by (simp add: create_no_arg_unfold create_with_arg_unfold func_no_args_def mthread_with_arg_def
        mthread_no_arg_def Let_def boot_def fresh_def SomeClass_def pthread_create_ok_def)

section \<open>The procedure fields after construction\<close>

text \<open>
  Claim C3, as amended. Each constructor stores null in the procedure field of the other
  shape and the pointer it was given in the field of its own shape. So no constructed
  object has both fields set, exactly one is set whenever the pointer given is not null,
  and the object a launch allocates is the constructor's.
\<close>

theorem constructors_procedure_fields:
  "mf_arg (mthread_no_arg p f) = None \<and> mf_no_arg (mthread_no_arg p f) = f
   \<and> mf_no_arg (mthread_with_arg p g v) = None \<and> mf_arg (mthread_with_arg p g v) = g
   \<and> \<not> (mf_no_arg (mthread_no_arg p f) \<noteq> None \<and> mf_arg (mthread_no_arg p f) \<noteq> None)
   \<and> \<not> (mf_no_arg (mthread_with_arg p g v) \<noteq> None \<and> mf_arg (mthread_with_arg p g v) \<noteq> None)
   \<and> ((mf_no_arg (mthread_no_arg p (Some x)) = None)
        \<noteq> (mf_arg (mthread_no_arg p (Some x)) = None))
   \<and> ((mf_no_arg (mthread_with_arg p (Some y) v) = None)
        \<noteq> (mf_arg (mthread_with_arg p (Some y) v) = None))
   \<and> map_of (heap (snd (create_no_arg native p_thread p_attr p f s))) (fresh (heap s))
        = Some (mthread_no_arg p f)
   \<and> map_of (heap (snd (create_with_arg native p_thread p_attr p g v s))) (fresh (heap s))
        = Some (mthread_with_arg p g v)"
  by (simp add: mthread_no_arg_def mthread_with_arg_def create_no_arg_unfold
        create_with_arg_unfold)

text \<open>An instance with member 0 of each shape.\<close>

theorem constructors_procedure_fields_witness:
  "mf_no_arg (mthread_no_arg (Some 5) (Some 0)) = Some 0
   \<and> mf_arg (mthread_no_arg (Some 5) (Some 0)) = None
   \<and> mf_arg (mthread_with_arg (Some 5) (Some 0) (Some 7)) = Some 0
   \<and> mf_no_arg (mthread_with_arg (Some 5) (Some 0) (Some 7)) = None"
  using constructors_procedure_fields
    [of "Some 5" "Some 0" "Some 0" "Some 7" 0 0 pthread_create_ok None None boot]
  by simp

text \<open>
  Claim C3 as stated (exactly one field is always set) fails when the caller passes a null
  member pointer, which the constructors store unchecked: both fields are then null.
\<close>

theorem constructors_null_procedure_counterexample:
  "map_of (heap (snd (create_no_arg pthread_create_ok None None (Some 5) None boot))) 1
     = Some (mthread_no_arg (Some 5) None)
   \<and> mf_no_arg (mthread_no_arg (Some 5) None) = None
   \<and> mf_arg (mthread_no_arg (Some 5) None) = None"
  by (simp add: create_no_arg_unfold mthread_no_arg_def boot_def fresh_def)

section \<open>The launch operations and the native primitive\<close>

lemma fresh_grows: "fresh ((fresh h, m) # h) \<noteq> fresh h"
  by (simp add: fresh_def)

text \<open>
  Claim C4. A launch adds exactly one object to the free store, at an address that was not
  live before (so it is no object of an earlier launch, and the next launch gets another
  address), and calls the native primitive once with the start routine of its own shape
  and that address as the opaque argument: \<^verbatim>\<open>func_no_args\<close> with an object built by the
  no-argument constructor, \<^verbatim>\<open>func_args\<close> with one built by the with-argument
  constructor.
\<close>

theorem create_allocates_one_context:
  "create_no_arg native p_thread p_attr p_ref f s =
     (fst (native p_thread p_attr Func_no_args (Some (fresh (heap s))) (os s)),
      s\<lparr>heap := (fresh (heap s), mthread_no_arg p_ref f) # heap s,
        os := snd (native p_thread p_attr Func_no_args (Some (fresh (heap s))) (os s))\<rparr>)
   \<and> create_with_arg native p_thread p_attr p_ref g p_arg s =
     (fst (native p_thread p_attr Func_args (Some (fresh (heap s))) (os s)),
      s\<lparr>heap := (fresh (heap s), mthread_with_arg p_ref g p_arg) # heap s,
        os := snd (native p_thread p_attr Func_args (Some (fresh (heap s))) (os s))\<rparr>)
   \<and> map_of (heap s) (fresh (heap s)) = None
   \<and> fresh (heap s) \<notin> fst ` set (heap s)
   \<and> fresh (heap (snd (create_no_arg native p_thread p_attr p_ref f s))) \<noteq> fresh (heap s)
   \<and> fresh (heap (snd (create_with_arg native p_thread p_attr p_ref g p_arg s))) \<noteq> fresh (heap s)"
  by (simp add: create_no_arg_unfold create_with_arg_unfold fresh_not_live fresh_not_key
        fresh_grows)

text \<open>
  An instance: with a primitive that records the thread it starts, the record holds the
  matching start routine and the new object's address.
\<close>

theorem create_allocates_one_context_witness:
  "create_no_arg pthread_create_ok None None (Some 5) (Some 0) boot =
     (0, \<lparr>heap = [(1, mthread_no_arg (Some 5) (Some 0))], world = [],
           os = [(Func_no_args, Some 1)], calls = []\<rparr>)
   \<and> create_with_arg pthread_create_ok None None (Some 5) (Some 0) (Some 7) boot =
     (0, \<lparr>heap = [(1, mthread_with_arg (Some 5) (Some 0) (Some 7))], world = [],
           os = [(Func_args, Some 1)], calls = []\<rparr>)"
  using create_allocates_one_context
    [of pthread_create_ok None None "Some 5" "Some 0" boot "Some 0" "Some 7"]
  by (simp add: boot_def fresh_def pthread_create_ok_def)

text \<open>
  Claim C5. What a launch returns is the status code of the native primitive, unchanged:
  0 when the primitive reports success, its own error code otherwise.
\<close>

theorem create_returns_native_status:
  "fst (create_no_arg native p_thread p_attr p_ref f s)
     = fst (native p_thread p_attr Func_no_args (Some (fresh (heap s))) (os s))
   \<and> fst (create_with_arg native p_thread p_attr p_ref g p_arg s)
     = fst (native p_thread p_attr Func_args (Some (fresh (heap s))) (os s))"
  by (simp add: create_no_arg_unfold create_with_arg_unfold)

text \<open>
  An instance of each outcome: status 0 from the accepting primitive, \<^verbatim>\<open>EAGAIN\<close> from
  the refusing one.
\<close>

theorem create_returns_native_status_witness:
  "fst (create_no_arg pthread_create_ok None None (Some 5) (Some 0) boot) = 0
   \<and> fst (create_with_arg pthread_create_eagain None None (Some 5) (Some 0) (Some 7) boot) = 11"
  using create_returns_native_status
      [of pthread_create_ok None None "Some 5" "Some 0" boot "Some 0" "Some 7"]
    create_returns_native_status
      [of pthread_create_eagain None None "Some 5" "Some 0" boot "Some 0" "Some 7"]
  by (simp add: pthread_create_ok_def pthread_create_eagain_def)

text \<open>
  Claim C6. When the native primitive returns a nonzero code, the launch returns that code
  and the object it allocated is still on the free store afterwards: the launch releases
  nothing.
\<close>

theorem create_failure_keeps_context:
  "(fst (native p_thread p_attr Func_no_args (Some (fresh (heap s))) (os s)) \<noteq> 0 \<longrightarrow>
      fst (create_no_arg native p_thread p_attr p_ref f s)
        = fst (native p_thread p_attr Func_no_args (Some (fresh (heap s))) (os s))
      \<and> fst (create_no_arg native p_thread p_attr p_ref f s) \<noteq> 0
      \<and> heap (snd (create_no_arg native p_thread p_attr p_ref f s))
        = (fresh (heap s), mthread_no_arg p_ref f) # heap s
      \<and> map_of (heap (snd (create_no_arg native p_thread p_attr p_ref f s))) (fresh (heap s))
        = Some (mthread_no_arg p_ref f))
   \<and> (fst (native p_thread p_attr Func_args (Some (fresh (heap s))) (os s)) \<noteq> 0 \<longrightarrow>
      fst (create_with_arg native p_thread p_attr p_ref g p_arg s)
        = fst (native p_thread p_attr Func_args (Some (fresh (heap s))) (os s))
      \<and> fst (create_with_arg native p_thread p_attr p_ref g p_arg s) \<noteq> 0
      \<and> heap (snd (create_with_arg native p_thread p_attr p_ref g p_arg s))
        = (fresh (heap s), mthread_with_arg p_ref g p_arg) # heap s
      \<and> map_of (heap (snd (create_with_arg native p_thread p_attr p_ref g p_arg s))) (fresh (heap s))
        = Some (mthread_with_arg p_ref g p_arg))"
  by (simp add: create_no_arg_unfold create_with_arg_unfold)

text \<open>
  An instance: both launches against the refusing primitive return 11 and leave their
  object allocated.
\<close>

theorem create_failure_keeps_context_witness:
  "fst (pthread_create_eagain None None Func_no_args (Some 1) []) \<noteq> 0
   \<and> create_no_arg pthread_create_eagain None None (Some 5) (Some 0) boot
       = (11, boot\<lparr>heap := [(1, mthread_no_arg (Some 5) (Some 0))]\<rparr>)
   \<and> fst (pthread_create_eagain None None Func_args (Some 1) []) \<noteq> 0
   \<and> create_with_arg pthread_create_eagain None None (Some 5) (Some 0) (Some 7) boot
       = (11, boot\<lparr>heap := [(1, mthread_with_arg (Some 5) (Some 0) (Some 7))]\<rparr>)"
  using create_failure_keeps_context
    [of pthread_create_eagain None None boot "Some 5" "Some 0" "Some 0" "Some 7"]
  by (simp add: boot_def fresh_def pthread_create_eagain_def create_no_arg_unfold
        create_with_arg_unfold)

section \<open>The destructor\<close>

lemma update_live_keys:
  "map_of h a = Some m \<Longrightarrow> fst ` set (AList.update a v h) = fst ` set h"
proof -
  assume "map_of h a = Some m"
  then have "a \<in> fst ` set h" by (metis map_of_eq_None_iff option.distinct(1))
  then show ?thesis by (auto simp add: dom_update)
qed

text \<open>
  Claim C7. The destructor of a live object stores null in \<^verbatim>\<open>mp_ref\<close> and
  \<^verbatim>\<open>mp_arg\<close> and does nothing else: the procedure fields, every other object, the set
  of allocated addresses, the caller's world (where the owner and the argument payload
  live), the thread library and the call log are as before.
\<close>

theorem dtor_clears_references_only:
  "map_of (heap s) this = Some m \<Longrightarrow>
     map_of (heap (mthread_dtor this s)) this = Some (m\<lparr>mp_ref := None, mp_arg := None\<rparr>)
     \<and> mf_no_arg (m\<lparr>mp_ref := None, mp_arg := None\<rparr>) = mf_no_arg m
     \<and> mf_arg (m\<lparr>mp_ref := None, mp_arg := None\<rparr>) = mf_arg m
     \<and> world (mthread_dtor this s) = world s
     \<and> os (mthread_dtor this s) = os s
     \<and> calls (mthread_dtor this s) = calls s
     \<and> fst ` set (heap (mthread_dtor this s)) = fst ` set (heap s)
     \<and> (\<forall>b. b \<noteq> this \<longrightarrow> map_of (heap (mthread_dtor this s)) b = map_of (heap s) b)"
  by (simp add: mthread_dtor_def update_conv' update_live_keys)

text \<open>
  An instance: the destructor run on the object of a single-argument launch.
\<close>

theorem dtor_clears_references_only_witness:
  "map_of (heap (snd (create_with_arg pthread_create_ok None None (Some 5) (Some 0) (Some 7) boot))) 1
     = Some (mthread_with_arg (Some 5) (Some 0) (Some 7))
   \<and> mthread_dtor 1 (snd (create_with_arg pthread_create_ok None None (Some 5) (Some 0) (Some 7) boot))
     = \<lparr>heap = [(1, \<lparr>mp_ref = None, mp_arg = None, mf_no_arg = None, mf_arg = Some 0\<rparr>)],
        world = [], os = [(Func_args, Some 1)], calls = []\<rparr>"
proof -
  have live: "map_of (heap (snd (create_with_arg pthread_create_ok None None (Some 5) (Some 0) (Some 7) boot))) 1
     = Some (mthread_with_arg (Some 5) (Some 0) (Some 7))"
    by (simp add: create_with_arg_unfold boot_def fresh_def)
  from dtor_clears_references_only [OF live] live show ?thesis
    by (simp add: create_with_arg_unfold boot_def fresh_def pthread_create_ok_def
          mthread_dtor_def mthread_with_arg_def)
qed

section \<open>Failures of the member\<close>

text \<open>
  Claim C8. For an object that holds a member pointer of the start routine's shape, the
  start routine ends in a propagated failure \<open>e\<close> exactly when the member it calls raises
  \<open>e\<close>, and it returns a pointer exactly when the member returns: a failure of the member
  is neither turned into a return value nor dropped.
\<close>

theorem start_routines_propagate_failure:
  "(map_of (heap s) a = Some c \<and> mf_arg c = Some f \<longrightarrow>
      (fst (func_args T (Some a) s) = Inl (Procedure_failure e)
         \<longleftrightarrow> fst (arg_member T f (mp_ref c) (mp_arg c) (world s)) = Inl e)
      \<and> ((\<exists>p. fst (func_args T (Some a) s) = Inr p)
         \<longleftrightarrow> (\<exists>r. fst (arg_member T f (mp_ref c) (mp_arg c) (world s)) = Inr r)))
   \<and> (map_of (heap s) b = Some d \<and> mf_no_arg d = Some g \<longrightarrow>
      (fst (func_no_args T (Some b) s) = Inl (Procedure_failure e)
         \<longleftrightarrow> fst (no_arg_member T g (mp_ref d) (world s)) = Inl e)
      \<and> ((\<exists>p. fst (func_no_args T (Some b) s) = Inr p)
         \<longleftrightarrow> (\<exists>r. fst (no_arg_member T g (mp_ref d) (world s)) = Inr r)))"
proof (intro conjI impI)
  assume live: "map_of (heap s) a = Some c \<and> mf_arg c = Some f"
  obtain out w where m: "arg_member T f (mp_ref c) (mp_arg c) (world s) = (out, w)"
    by (cases "arg_member T f (mp_ref c) (mp_arg c) (world s)")
  show "fst (func_args T (Some a) s) = Inl (Procedure_failure e)
          \<longleftrightarrow> fst (arg_member T f (mp_ref c) (mp_arg c) (world s)) = Inl e"
    using live m by (cases out) (simp_all add: func_args_live)
  show "(\<exists>p. fst (func_args T (Some a) s) = Inr p)
          \<longleftrightarrow> (\<exists>r. fst (arg_member T f (mp_ref c) (mp_arg c) (world s)) = Inr r)"
    using live m by (cases out) (simp_all add: func_args_live)
next
  assume live: "map_of (heap s) b = Some d \<and> mf_no_arg d = Some g"
  obtain out w where m: "no_arg_member T g (mp_ref d) (world s) = (out, w)"
    by (cases "no_arg_member T g (mp_ref d) (world s)")
  show "fst (func_no_args T (Some b) s) = Inl (Procedure_failure e)
          \<longleftrightarrow> fst (no_arg_member T g (mp_ref d) (world s)) = Inl e"
    using live m by (cases out) (simp_all add: func_no_args_live)
  show "(\<exists>p. fst (func_no_args T (Some b) s) = Inr p)
          \<longleftrightarrow> (\<exists>r. fst (no_arg_member T g (mp_ref d) (world s)) = Inr r)"
    using live m by (cases out) (simp_all add: func_no_args_live)
qed

text \<open>
  An instance: after a single-argument and a no-argument launch of a raising member, each
  start routine ends in that member's failure.
\<close>

theorem start_routines_propagate_failure_witness:
  "map_of (heap (snd (create_no_arg pthread_create_ok None None (Some 5) (Some 1)
       (snd (create_with_arg pthread_create_ok None None (Some 5) (Some 1) (Some 7) boot))))) 1
     = Some (mthread_with_arg (Some 5) (Some 1) (Some 7))
   \<and> mf_arg (mthread_with_arg (Some 5) (Some 1) (Some 7)) = Some 1
   \<and> fst (arg_member SomeClass 1 (Some 5) (Some 7) []) = Inl ''fault''
   \<and> fst (func_args SomeClass (Some 1)
       (snd (create_no_arg pthread_create_ok None None (Some 5) (Some 1)
         (snd (create_with_arg pthread_create_ok None None (Some 5) (Some 1) (Some 7) boot)))))
     = Inl (Procedure_failure ''fault'')
   \<and> map_of (heap (snd (create_no_arg pthread_create_ok None None (Some 5) (Some 1)
       (snd (create_with_arg pthread_create_ok None None (Some 5) (Some 1) (Some 7) boot))))) 2
     = Some (mthread_no_arg (Some 5) (Some 1))
   \<and> mf_no_arg (mthread_no_arg (Some 5) (Some 1)) = Some 1
   \<and> fst (no_arg_member SomeClass 1 (Some 5) []) = Inl ''fault''
   \<and> fst (func_no_args SomeClass (Some 2)
       (snd (create_no_arg pthread_create_ok None None (Some 5) (Some 1)
         (snd (create_with_arg pthread_create_ok None None (Some 5) (Some 1) (Some 7) boot)))))
     = Inl (Procedure_failure ''fault'')"
  using start_routines_propagate_failure
    [where s = "snd (create_no_arg pthread_create_ok None None (Some 5) (Some 1)
         (snd (create_with_arg pthread_create_ok None None (Some 5) (Some 1) (Some 7) boot)))"
       and a = 1 and c = "mthread_with_arg (Some 5) (Some 1) (Some 7)" and f = 1
       and T = SomeClass and e = "''fault''"
       and b = 2 and d = "mthread_no_arg (Some 5) (Some 1)" and g = 1]
  by (simp add: create_no_arg_unfold create_with_arg_unfold boot_def fresh_def
        mthread_with_arg_def mthread_no_arg_def SomeClass_def)

section \<open>The argument field on the no-argument path\<close>

text \<open>
  Claim C9. The no-argument constructor stores null in \<^verbatim>\<open>mp_arg\<close>, and
  \<^verbatim>\<open>func_no_args\<close> does not depend on that field: whatever pointer \<open>x\<close> is put there,
  the result, the member call made (owner and member only), the world, the thread library
  and every other object come out the same.
\<close>

theorem func_no_args_ignores_argument_field:
  "map_of (heap s) a = Some c \<Longrightarrow>
     mp_arg (mthread_no_arg p_ref f) = None
     \<and> fst (func_no_args T (Some a) (s\<lparr>heap := AList.update a (c\<lparr>mp_arg := x\<rparr>) (heap s)\<rparr>))
         = fst (func_no_args T (Some a) s)
     \<and> world (snd (func_no_args T (Some a) (s\<lparr>heap := AList.update a (c\<lparr>mp_arg := x\<rparr>) (heap s)\<rparr>)))
         = world (snd (func_no_args T (Some a) s))
     \<and> calls (snd (func_no_args T (Some a) (s\<lparr>heap := AList.update a (c\<lparr>mp_arg := x\<rparr>) (heap s)\<rparr>)))
         = calls (snd (func_no_args T (Some a) s))
     \<and> os (snd (func_no_args T (Some a) (s\<lparr>heap := AList.update a (c\<lparr>mp_arg := x\<rparr>) (heap s)\<rparr>)))
         = os (snd (func_no_args T (Some a) s))
     \<and> AList.delete a
           (heap (snd (func_no_args T (Some a) (s\<lparr>heap := AList.update a (c\<lparr>mp_arg := x\<rparr>) (heap s)\<rparr>))))
         = AList.delete a (heap (snd (func_no_args T (Some a) s)))"
  by (simp add: func_no_args_def mthread_no_arg_def delete_mthread_def mthread_dtor_def
        Let_def update_conv' delete_update_same delete_idem split: option.split prod.split sum.split)

text \<open>
  An instance: overwriting the argument field of a launched no-argument object with the
  pointer 9 changes nothing in what \<^verbatim>\<open>func_no_args\<close> does.
\<close>

theorem func_no_args_ignores_argument_field_witness:
  "map_of (heap (snd (create_no_arg pthread_create_ok None None (Some 5) (Some 0) boot))) 1
     = Some (mthread_no_arg (Some 5) (Some 0))
   \<and> mp_arg (mthread_no_arg (Some 5) (Some 0)) = None
   \<and> func_no_args SomeClass (Some 1)
        ((snd (create_no_arg pthread_create_ok None None (Some 5) (Some 0) boot))
           \<lparr>heap := [(1, (mthread_no_arg (Some 5) (Some 0))\<lparr>mp_arg := Some 9\<rparr>)]\<rparr>)
     = func_no_args SomeClass (Some 1)
        (snd (create_no_arg pthread_create_ok None None (Some 5) (Some 0) boot))
   \<and> calls (snd (func_no_args SomeClass (Some 1)
        ((snd (create_no_arg pthread_create_ok None None (Some 5) (Some 0) boot))
           \<lparr>heap := [(1, (mthread_no_arg (Some 5) (Some 0))\<lparr>mp_arg := Some 9\<rparr>)]\<rparr>)))
     = [Call_no_arg (Some 5) 0]"
proof -
  have live: "map_of (heap (snd (create_no_arg pthread_create_ok None None (Some 5) (Some 0) boot))) 1
     = Some (mthread_no_arg (Some 5) (Some 0))"
    by (simp add: create_no_arg_unfold boot_def fresh_def)
  from func_no_args_ignores_argument_field [OF live, of "Some 5" "Some 0" SomeClass "Some 9"] live
  show ?thesis
    by (simp add: create_no_arg_unfold boot_def fresh_def func_no_args_def mthread_no_arg_def
          delete_mthread_def mthread_dtor_def Let_def SomeClass_def pthread_create_ok_def)
qed

section \<open>The free function templates\<close>

text \<open>
  Claim C10. Each \<^verbatim>\<open>mthread_create\<close> overload gives the same status and the same
  final state as the static \<^verbatim>\<open>mthread::create\<close> overload with the same arguments.
\<close>

theorem mthread_create_is_create:
  "mthread_create_no_arg native p_thread p_attr p_ref f s
     = create_no_arg native p_thread p_attr p_ref f s
   \<and> mthread_create_with_arg native p_thread p_attr p_ref g p_arg s
     = create_with_arg native p_thread p_attr p_ref g p_arg s"
  by (simp add: mthread_create_no_arg_def mthread_create_with_arg_def)

text \<open>
  An instance of each overload, one against each primitive.
\<close>

theorem mthread_create_is_create_witness:
  "mthread_create_no_arg pthread_create_ok None None (Some 5) (Some 0) boot
     = (0, \<lparr>heap = [(1, mthread_no_arg (Some 5) (Some 0))], world = [],
           os = [(Func_no_args, Some 1)], calls = []\<rparr>)
   \<and> mthread_create_with_arg pthread_create_eagain None None (Some 5) (Some 0) (Some 7) boot
     = (11, \<lparr>heap = [(1, mthread_with_arg (Some 5) (Some 0) (Some 7))], world = [],
           os = [], calls = []\<rparr>)"
  using mthread_create_is_create
      [of pthread_create_ok None None "Some 5" "Some 0" boot "Some 0" "Some 7"]
    mthread_create_is_create
      [of pthread_create_eagain None None "Some 5" "Some 0" boot "Some 0" "Some 7"]
  by (simp add: create_no_arg_unfold create_with_arg_unfold boot_def fresh_def
        pthread_create_ok_def pthread_create_eagain_def)

end
